theory Spec2Isabelle
  imports Main "HOL-Library.Word"
begin

unbundle bit_operations_syntax

section \<open>Constants of main.cpp\<close>

type_synonym byte = "8 word"

definition EEPROM_CLOCK_FACE_NUMBER :: nat where "EEPROM_CLOCK_FACE_NUMBER = 0"
definition EEPROM_DATE_TIME_AND_COLON :: nat where "EEPROM_DATE_TIME_AND_COLON = 1"
definition EEPROM_ALTERNATE_COUNTER :: nat where "EEPROM_ALTERNATE_COUNTER = 2"
definition EEPROM_CLOCK_FACE_SETTINGS :: nat where "EEPROM_CLOCK_FACE_SETTINGS = 10"
definition DEFAULT_CLOCK_FACE_LENGTH :: nat where "DEFAULT_CLOCK_FACE_LENGTH = 10"
definition DEFAULT_FACTORY_CLOCK_FACES :: nat where "DEFAULT_FACTORY_CLOCK_FACES = 10"

definition MARKER_HOUR_EVERY :: byte where "MARKER_HOUR_EVERY = 0x10"
definition MARKER_HOUR_QUARTERS :: byte where "MARKER_HOUR_QUARTERS = 0x20"
definition MARKER_HOUR_TWELTH :: byte where "MARKER_HOUR_TWELTH = 0x40"
definition MARKER_BIT_HOUR_EVERY :: nat where "MARKER_BIT_HOUR_EVERY = 4"
definition MARKER_BIT_HOUR_QUARTERS :: nat where "MARKER_BIT_HOUR_QUARTERS = 5"
definition MARKER_BIT_HOUR_TWELTH :: nat where "MARKER_BIT_HOUR_TWELTH = 6"

definition COLOR_HANDS :: byte where "COLOR_HANDS = 0x10"
definition COLOR_DOT :: byte where "COLOR_DOT = 0x20"
definition COLOR_TRACE :: byte where "COLOR_TRACE = 0x40"
definition COLOR_BIT_HANDS :: nat where "COLOR_BIT_HANDS = 4"
definition COLOR_BIT_DOT :: nat where "COLOR_BIT_DOT = 5"
definition COLOR_BIT_TRACE :: nat where "COLOR_BIT_TRACE = 6"

definition RING_NONE :: byte where "RING_NONE = 0x00"
definition RING_SECONDS :: byte where "RING_SECONDS = 0x01"
definition RING_MINUTES :: byte where "RING_MINUTES = 0x02"
definition RING_MINUTES_SECONDS :: byte where "RING_MINUTES_SECONDS = 0x03"
definition RING_HOURS :: byte where "RING_HOURS = 0x04"
definition RING_HOURS_SECONDS :: byte where "RING_HOURS_SECONDS = 0x05"
definition RING_HOURS_MINUTES :: byte where "RING_HOURS_MINUTES = 0x06"
definition RING_HOURS_MINUTES_SECONDS :: byte where "RING_HOURS_MINUTES_SECONDS = 0x07"

definition COLORS_START :: byte where "COLORS_START = 0"
definition COLORS_END :: byte where "COLORS_END = 7"

definition COLOR_BLANK :: byte where "COLOR_BLANK = 0x00"
definition COLOR_RED :: byte where "COLOR_RED = 0x01"
definition COLOR_GREEN :: byte where "COLOR_GREEN = 0x02"
definition COLOR_ORANGE :: byte where "COLOR_ORANGE = 0x03"
definition COLOR_BLUE :: byte where "COLOR_BLUE = 0x04"
definition COLOR_PURPLE :: byte where "COLOR_PURPLE = 0x05"
definition COLOR_CYAN :: byte where "COLOR_CYAN = 0x06"
definition COLOR_WHITE :: byte where "COLOR_WHITE = 0x07"

definition DISPLAY_COLONS_OFF :: byte where "DISPLAY_COLONS_OFF = 0x00"
definition DISPLAY_COLONS_ON :: byte where "DISPLAY_COLONS_ON = 0x01"
definition DISPLAY_COLONS_FLASH_EVERY_SECOND :: byte
  where "DISPLAY_COLONS_FLASH_EVERY_SECOND = 0x02"

definition DISPLAY_NONE :: byte where "DISPLAY_NONE = 0x00"
definition DISPLAY_TIME :: byte where "DISPLAY_TIME = 0x10"
definition DISPLAY_DATE :: byte where "DISPLAY_DATE = 0x20"
definition DISPLAY_TIME_AND_DATE :: byte where "DISPLAY_TIME_AND_DATE = 0x30"

definition KEY_PRESSED_NONE :: byte where "KEY_PRESSED_NONE = 0x00"
definition KEY_PRESSED_1 :: byte where "KEY_PRESSED_1 = 0x01"
definition KEY_PRESSED_2 :: byte where "KEY_PRESSED_2 = 0x02"
definition KEY_PRESSED_3 :: byte where "KEY_PRESSED_3 = 0x04"

definition SET_POSITION_NONE :: byte where "SET_POSITION_NONE = 0x00"
definition SET_POSITION_HOURS :: byte where "SET_POSITION_HOURS = 0x01"
definition SET_POSITION_MINUTES :: byte where "SET_POSITION_MINUTES = 0x02"
definition SET_POSITION_SECONDS :: byte where "SET_POSITION_SECONDS = 0x03"
definition SET_POSITION_YEAR :: byte where "SET_POSITION_YEAR = 0x04"
definition SET_POSITION_MONTH :: byte where "SET_POSITION_MONTH = 0x05"
definition SET_POSITION_DAY :: byte where "SET_POSITION_DAY = 0x06"
definition SET_POSITION_MARKERS :: byte where "SET_POSITION_MARKERS = 0x08"
definition SET_POSITION_CLOCK_FACE :: byte where "SET_POSITION_CLOCK_FACE = 0x10"
definition SET_POSITION_TIME_DATE :: byte where "SET_POSITION_TIME_DATE = 0x11"
definition SET_POSITION_ALT_TIMER :: byte where "SET_POSITION_ALT_TIMER = 0x12"
definition SET_POSITION_FLASH_COLON :: byte where "SET_POSITION_FLASH_COLON = 0x13"

text \<open>The table of the ten factory clock faces: one row per face, holding the
  hour-marker byte and the hours, minutes and seconds bytes in this order.\<close>

definition DEFAULT_FACTORY_COLORS :: "byte list list" where
  "DEFAULT_FACTORY_COLORS =
    [[COLOR_BLUE OR MARKER_HOUR_EVERY, COLOR_CYAN OR COLOR_HANDS,
        COLOR_GREEN OR COLOR_HANDS, COLOR_RED OR COLOR_HANDS],
     [COLOR_PURPLE OR MARKER_HOUR_QUARTERS, COLOR_CYAN OR COLOR_TRACE,
        COLOR_GREEN OR COLOR_HANDS, COLOR_RED OR COLOR_DOT],
     [COLOR_BLUE OR MARKER_HOUR_EVERY, COLOR_BLANK OR COLOR_DOT,
        COLOR_BLANK OR COLOR_DOT, COLOR_RED OR COLOR_TRACE],
     [COLOR_RED OR MARKER_HOUR_QUARTERS, COLOR_BLANK OR COLOR_DOT,
        COLOR_BLANK OR COLOR_DOT, COLOR_BLUE OR COLOR_TRACE],
     [COLOR_ORANGE OR MARKER_HOUR_TWELTH, COLOR_BLANK OR COLOR_DOT,
        COLOR_GREEN OR COLOR_TRACE, COLOR_BLUE OR COLOR_TRACE],
     [COLOR_BLANK, COLOR_BLANK OR COLOR_DOT,
        COLOR_BLANK OR COLOR_DOT, COLOR_RED OR COLOR_DOT],
     [COLOR_BLANK, COLOR_BLUE OR COLOR_DOT,
        COLOR_GREEN OR COLOR_DOT, COLOR_RED OR COLOR_DOT],
     [COLOR_BLANK, COLOR_BLANK OR COLOR_DOT,
        COLOR_BLANK OR COLOR_DOT, COLOR_RED OR COLOR_TRACE],
     [COLOR_BLUE OR MARKER_HOUR_EVERY, COLOR_CYAN OR COLOR_TRACE,
        COLOR_GREEN OR COLOR_TRACE, COLOR_RED OR COLOR_TRACE],
     [COLOR_BLANK, COLOR_BLANK OR COLOR_TRACE,
        COLOR_GREEN OR COLOR_TRACE, COLOR_RED OR COLOR_TRACE]]"

section \<open>The global variables\<close>

record clock =
  clockFace :: byte
  hours :: byte
  minutes :: byte
  seconds :: byte
  years :: byte
  months :: byte
  dayOfMonth :: byte
  hoursHand :: byte
  previousHoursHand :: byte
  previousHours :: byte
  previousMinutes :: byte
  previousSeconds :: byte
  hoursMarkerColor :: byte
  hoursColor :: byte
  minutesColor :: byte
  secondsColor :: byte
  ledSegmentsSettings :: byte
  ledSegmentsToggleSeconds :: byte
  position :: byte
  settingsChangedFlag :: byte
  exitFlag :: bool

text \<open>The initial values the globals are declared with (those without an initialiser
  are zero, having static storage).\<close>

definition initialClock :: clock where
  "initialClock =
    \<lparr>clockFace = 0, hours = 0, minutes = 0, seconds = 0, years = 0, months = 0,
     dayOfMonth = 0, hoursHand = 0, previousHoursHand = 0, previousHours = 0,
     previousMinutes = 0, previousSeconds = 0,
     hoursMarkerColor = COLOR_PURPLE OR MARKER_HOUR_EVERY, hoursColor = COLOR_RED,
     minutesColor = COLOR_RED, secondsColor = COLOR_GREEN,
     ledSegmentsSettings = DISPLAY_TIME_AND_DATE OR DISPLAY_COLONS_FLASH_EVERY_SECOND,
     ledSegmentsToggleSeconds = 10, position = 0, settingsChangedFlag = 0,
     exitFlag = False\<rparr>"

section \<open>Persistent settings\<close>

text \<open>The EEPROM is a byte-addressed store; \<open>EEPROM.read\<close> is function application.\<close>

type_synonym eeprom = "nat \<Rightarrow> byte"

definition blankEeprom :: eeprom where
  "blankEeprom = (\<lambda>a. 0)"

definition loadSettingsOrFactoryDefaults :: "eeprom \<Rightarrow> clock \<Rightarrow> clock" where
  "loadSettingsOrFactoryDefaults E c =
    (let cf = E EEPROM_CLOCK_FACE_NUMBER;
         cf' = (if unat cf > DEFAULT_FACTORY_CLOCK_FACES then 0 else cf);
         ts = E EEPROM_ALTERNATE_COUNTER;
         ts' = (if ts = 0 then 5 else ts)
     in c\<lparr>clockFace := cf',
          ledSegmentsSettings := E EEPROM_DATE_TIME_AND_COLON,
          ledSegmentsToggleSeconds := ts'\<rparr>)"

text \<open>The address of byte \<open>k\<close> of the record of face \<open>cf\<close>; the source computes it in
  \<open>int\<close>, where it cannot overflow (at most 10 + 255 * 10 + 3).\<close>

definition faceAddress :: "byte \<Rightarrow> nat \<Rightarrow> nat" where
  "faceAddress cf k = EEPROM_CLOCK_FACE_SETTINGS + unat cf * DEFAULT_CLOCK_FACE_LENGTH + k"

text \<open>Reading \<open>DEFAULT_FACTORY_COLORS[cf][k]\<close> with a row index beyond the ten rows of
  the table is an out-of-bounds read; the model makes it an error value.\<close>

datatype load_error = FactoryTableOutOfBounds nat

definition loadFaceSettingsOrFactoryDefaults :: "eeprom \<Rightarrow> clock \<Rightarrow> load_error + clock" where
  "loadFaceSettingsOrFactoryDefaults E c =
    (let cf = clockFace c;
         c1 = c\<lparr>hoursMarkerColor := E (faceAddress cf 0),
                hoursColor := E (faceAddress cf 1),
                minutesColor := E (faceAddress cf 2),
                secondsColor := E (faceAddress cf 3)\<rparr>
     in if hoursMarkerColor c1 = 0 \<and> hoursColor c1 = 0 \<and> minutesColor c1 = 0
            \<and> secondsColor c1 = 0
        then (if unat cf < length DEFAULT_FACTORY_COLORS
              then Inr (c1\<lparr>hoursMarkerColor := DEFAULT_FACTORY_COLORS ! unat cf ! 0,
                            hoursColor := DEFAULT_FACTORY_COLORS ! unat cf ! 1,
                            minutesColor := DEFAULT_FACTORY_COLORS ! unat cf ! 2,
                            secondsColor := DEFAULT_FACTORY_COLORS ! unat cf ! 3\<rparr>)
              else Inl (FactoryTableOutOfBounds (unat cf)))
        else Inr c1)"


section \<open>The ring of LEDs\<close>

text \<open>The two commands the renderer sends to the ring peripheral:
  \<open>ledWrite(ring, number, color)\<close> and \<open>ledWriteAllInRingOff(ring)\<close>. The command
  stream of a function is the list of the commands it sends, in order.\<close>

datatype ring_cmd = LedWrite byte byte byte | AllInRingOff byte

text \<open>Modelled from the spec: the ring peripheral (a slave processor whose firmware is not
  in the repository) and what its LEDs show after a command. Following the command list in
  the header of main.cpp and section 6 of the specification, \<open>0xF1\<close> sets the LED at one
  position of every ring selected by the ring mask to a color (color 0 turns it off), and
  \<open>0xF5\<close> turns off every LED of the selected rings. A ring is named by its bit in the
  mask: 0 for seconds, 1 for minutes, 2 for hours.\<close>

type_synonym leds = "nat \<Rightarrow> nat \<Rightarrow> byte"

definition darkLeds :: leds where
  "darkLeds = (\<lambda>r p. 0)"

fun applyCmd :: "ring_cmd \<Rightarrow> leds \<Rightarrow> leds" where
  "applyCmd (LedWrite ring number color) L =
     (\<lambda>r p. if bit ring r \<and> p = unat number then color else L r p)"
| "applyCmd (AllInRingOff ring) L = (\<lambda>r p. if bit ring r then 0 else L r p)"

fun applyCmds :: "ring_cmd list \<Rightarrow> leds \<Rightarrow> leds" where
  "applyCmds [] L = L"
| "applyCmds (x # xs) L = applyCmds xs (applyCmd x L)"

text \<open>The lit positions: the pairs of a ring and a position with a color other than 0.\<close>

definition litPositions :: "leds \<Rightarrow> (nat \<times> nat) list" where
  "litPositions L =
     concat (map (\<lambda>r. map (Pair r) (filter (\<lambda>p. L r p \<noteq> 0) [0..<60])) [0..<3])"

section \<open>The differential ring renderer\<close>

text \<open>\<open>for (r = previous; r > value; r--) ledWrite(ring, r, COLOR_BLANK)\<close>\<close>

function clearLoop :: "byte \<Rightarrow> byte \<Rightarrow> byte \<Rightarrow> ring_cmd list" where
  "clearLoop ring r v =
     (if v < r then LedWrite ring r COLOR_BLANK # clearLoop ring (r - 1) v else [])"
  by pat_completeness auto
termination
proof (relation "measure (\<lambda>(ring, r, v). unat r)")
  show "wf (measure (\<lambda>(ring, r, v). unat r))" by simp
next
  fix ring r v :: byte
  assume "v < r"
  then have "r \<noteq> 0" by auto
  then have "unat (r - 1) < unat r"
    by (simp add: unat_minus_one unat_gt_0 [symmetric] unat_eq_zero)
  then show "((ring, r - 1, v), (ring, r, v)) \<in> measure (\<lambda>(ring, r, v). unat r)"
    by simp
qed

declare clearLoop.simps [simp del]

text \<open>\<open>for (r = start; r <= value; r++) ledWrite(ring, r, color)\<close>. The counter is a byte:
  with \<open>value = 255\<close> the condition never fails and the loop does not return, which is the
  value \<open>None\<close>.\<close>

partial_function (option) fillLoop :: "byte \<Rightarrow> byte \<Rightarrow> byte \<Rightarrow> byte \<Rightarrow> ring_cmd list option"
where
  "fillLoop ring r v color =
     (if r \<le> v
      then Option.bind (fillLoop ring (r + 1) v color)
             (\<lambda>rest. Some (LedWrite ring r color # rest))
      else Some [])"

declare fillLoop.simps [code]

text \<open>One block of \<open>clearHands\<close>. The three blocks of the source differ in the variables
  they read and in the rings they clear only: \<open>ring\<close> is the hand's own ring and
  \<open>handsRing\<close> the mask cleared for a hand of style Hands.\<close>

definition clearHand :: "byte \<Rightarrow> byte \<Rightarrow> byte \<Rightarrow> byte \<Rightarrow> byte \<Rightarrow> ring_cmd list" where
  "clearHand color v previous ring handsRing =
     (if color AND 0x0f \<noteq> COLOR_BLANK then
        if v \<noteq> previous then
          if bit color COLOR_BIT_TRACE then
            if v = 0 then [AllInRingOff ring]
            else clearLoop ring previous v
          else if bit color COLOR_BIT_DOT then [LedWrite ring previous COLOR_BLANK]
          else if bit color COLOR_BIT_HANDS then [LedWrite handsRing previous COLOR_BLANK]
          else []
        else []
      else [])"

definition clearHours :: "clock \<Rightarrow> ring_cmd list" where
  "clearHours c =
     clearHand (hoursColor c) (hoursHand c) (previousHoursHand c) RING_HOURS RING_HOURS_MINUTES"

definition clearMinutes :: "clock \<Rightarrow> ring_cmd list" where
  "clearMinutes c =
     clearHand (minutesColor c) (minutes c) (previousMinutes c) RING_MINUTES
       RING_HOURS_MINUTES_SECONDS"

definition clearSeconds :: "clock \<Rightarrow> ring_cmd list" where
  "clearSeconds c =
     clearHand (secondsColor c) (seconds c) (previousSeconds c) RING_SECONDS
       RING_HOURS_MINUTES_SECONDS"

definition clearHands :: "clock \<Rightarrow> ring_cmd list" where
  "clearHands c = clearHours c @ clearMinutes c @ clearSeconds c"

text \<open>The trace fill of \<open>drawHands\<close>: the guard and the loop, the same for the three hands.\<close>

definition traceFill :: "clock \<Rightarrow> byte \<Rightarrow> byte \<Rightarrow> byte \<Rightarrow> byte \<Rightarrow> ring_cmd list option" where
  "traceFill c ring v previous color =
     (if v \<noteq> previous \<and> (v > 0 \<or> hoursMarkerColor c AND 0x0f = COLOR_BLANK)
      then fillLoop ring (if v \<le> 1 then v else previous) v (color AND 0x0f)
      else Some [])"

text \<open>"Also redraw if the hand of style Hands has been there previously."\<close>

definition redrawBehind :: "byte \<Rightarrow> byte \<Rightarrow> byte \<Rightarrow> byte \<Rightarrow> byte \<Rightarrow> byte \<Rightarrow> ring_cmd list" where
  "redrawBehind otherColor other otherPrevious ring v color =
     (if otherColor AND 0x0f \<noteq> COLOR_BLANK then
        if bit otherColor COLOR_BIT_HANDS then
          if other \<noteq> otherPrevious \<and> v \<ge> otherPrevious \<and> otherPrevious > 0
          then [LedWrite ring otherPrevious (color AND 0x0f)]
          else []
        else []
      else [])"

definition drawMinutes :: "clock \<Rightarrow> ring_cmd list option" where
  "drawMinutes c =
     (if minutesColor c AND 0x0f \<noteq> COLOR_BLANK then
        if bit (minutesColor c) COLOR_BIT_TRACE then
          map_option
            (\<lambda>fill. fill
               @ redrawBehind (secondsColor c) (seconds c) (previousSeconds c)
                   RING_MINUTES (minutes c) (minutesColor c)
               @ redrawBehind (hoursColor c) (hoursHand c) (previousHoursHand c)
                   RING_MINUTES (minutes c) (minutesColor c))
            (traceFill c RING_MINUTES (minutes c) (previousMinutes c) (minutesColor c))
        else if bit (minutesColor c) COLOR_BIT_DOT then
          Some (if minutes c \<noteq> previousMinutes c \<or> minutes c = previousSeconds c
                   \<or> minutes c = previousHoursHand c
                then [LedWrite RING_MINUTES (minutes c) (minutesColor c AND 0x0f)] else [])
        else if bit (minutesColor c) COLOR_BIT_HANDS then
          Some (if minutes c \<noteq> previousMinutes c \<or> minutes c = previousSeconds c
                   \<or> minutes c = previousHoursHand c
                then [LedWrite RING_HOURS_MINUTES_SECONDS (minutes c) (minutesColor c AND 0x0f)]
                else [])
        else Some []
      else Some [])"

definition drawHours :: "clock \<Rightarrow> ring_cmd list option" where
  "drawHours c =
     (if hoursColor c AND 0x0f \<noteq> COLOR_BLANK then
        if bit (hoursColor c) COLOR_BIT_TRACE then
          map_option
            (\<lambda>fill. fill
               @ redrawBehind (minutesColor c) (minutes c) (previousMinutes c)
                   RING_HOURS (hoursHand c) (hoursColor c)
               @ redrawBehind (secondsColor c) (seconds c) (previousSeconds c)
                   RING_HOURS (hoursHand c) (hoursColor c))
            (traceFill c RING_HOURS (hoursHand c) (previousHoursHand c) (hoursColor c))
        else if bit (hoursColor c) COLOR_BIT_DOT then
          Some (if hoursHand c \<noteq> previousHoursHand c \<or> hoursHand c = previousMinutes c
                   \<or> hoursHand c = previousSeconds c
                then [LedWrite RING_HOURS (hoursHand c) (hoursColor c AND 0x0f)] else [])
        else if bit (hoursColor c) COLOR_BIT_HANDS then
          Some (if hoursHand c \<noteq> previousHoursHand c \<or> hoursHand c = previousMinutes c
                   \<or> hoursHand c = previousSeconds c
                then [LedWrite RING_HOURS_MINUTES (hoursHand c) (hoursColor c AND 0x0f)]
                else [])
        else Some []
      else Some [])"

definition drawSeconds :: "clock \<Rightarrow> ring_cmd list option" where
  "drawSeconds c =
     (if secondsColor c AND 0x0f \<noteq> COLOR_BLANK then
        if bit (secondsColor c) COLOR_BIT_TRACE then
          map_option
            (\<lambda>fill. fill
               @ redrawBehind (minutesColor c) (minutes c) (previousMinutes c)
                   RING_SECONDS (seconds c) (secondsColor c))
            (traceFill c RING_SECONDS (seconds c) (previousSeconds c) (secondsColor c))
        else if bit (secondsColor c) COLOR_BIT_DOT then
          Some (if seconds c \<noteq> previousSeconds c \<or> seconds c = previousMinutes c
                then [LedWrite RING_SECONDS (seconds c) (secondsColor c AND 0x0f)] else [])
        else if bit (secondsColor c) COLOR_BIT_HANDS then
          Some (if seconds c \<noteq> previousSeconds c \<or> seconds c = previousMinutes c
                then [LedWrite RING_HOURS_MINUTES_SECONDS (seconds c) (secondsColor c AND 0x0f)]
                else [])
        else Some []
      else Some [])"

text \<open>The draw phase, in the order of the source: minutes, hours, seconds.\<close>

definition drawHands :: "clock \<Rightarrow> ring_cmd list option" where
  "drawHands c =
     (case drawMinutes c of None \<Rightarrow> None
      | Some m \<Rightarrow>
         (case drawHours c of None \<Rightarrow> None
          | Some h \<Rightarrow>
             (case drawSeconds c of None \<Rightarrow> None
              | Some s \<Rightarrow> Some (m @ h @ s))))"


text \<open>The ring mask of the marker at position \<open>loopMarker\<close>, as the body of the loop of
  \<open>drawHourMarkers\<close> computes it in the variable \<open>markers\<close>.\<close>

definition markerMask :: "clock \<Rightarrow> byte \<Rightarrow> byte" where
  "markerMask c loopMarker =
     (let m0 = (if loopMarker = 0 then RING_HOURS_MINUTES_SECONDS
                else if loopMarker = 15 \<or> loopMarker = 30 \<or> loopMarker = 45
                then RING_MINUTES_SECONDS else RING_SECONDS);
          m1 = (if secondsColor c AND 0x0f \<noteq> COLOR_BLANK \<and> seconds c = loopMarker then
                  if bit (secondsColor c) COLOR_BIT_TRACE then
                    (if seconds c > 0 then m0 AND RING_HOURS_MINUTES else m0)
                  else if bit (secondsColor c) COLOR_BIT_DOT then m0 AND RING_HOURS_MINUTES
                  else if bit (secondsColor c) COLOR_BIT_HANDS then RING_NONE
                  else m0
                else m0);
          m2 = (if minutesColor c AND 0x0f \<noteq> COLOR_BLANK \<and> minutes c = loopMarker then
                  if bit (minutesColor c) COLOR_BIT_TRACE then
                    (if minutes c > 0 then m1 AND RING_HOURS_SECONDS else m1)
                  else if bit (minutesColor c) COLOR_BIT_DOT then m1 AND RING_HOURS_SECONDS
                  else if bit (minutesColor c) COLOR_BIT_HANDS then RING_NONE
                  else m1
                else m1);
          m3 = (if hoursColor c AND 0x0f \<noteq> COLOR_BLANK \<and> hoursHand c = loopMarker then
                  if bit (hoursColor c) COLOR_BIT_TRACE then
                    (if hoursHand c > 0 then m2 AND RING_MINUTES_SECONDS else m2)
                  else if bit (hoursColor c) COLOR_BIT_DOT then m2 AND RING_MINUTES_SECONDS
                  else if bit (hoursColor c) COLOR_BIT_HANDS then m2 AND RING_SECONDS
                  else m2
                else m2)
      in m3)"

text \<open>\<open>for (loopMarker = 0; loopMarker < 60; loopMarker = loopMarker + steps)\<close>, from the
  current value of the counter. Below 60 the addition of a byte step cannot wrap past
  the first round, so the counter is a natural number here. \<open>drawMarkers\<close> calls the loop
  with the steps 5, 15 and 60 only; the guard \<open>0 < steps\<close> stands for that.\<close>

function drawHourMarkersFrom :: "clock \<Rightarrow> nat \<Rightarrow> byte \<Rightarrow> nat \<Rightarrow> ring_cmd list" where
  "drawHourMarkersFrom c steps drawColor loopMarker =
     (if loopMarker < 60 \<and> 0 < steps
      then (if markerMask c (of_nat loopMarker) \<noteq> RING_NONE
            then [LedWrite (markerMask c (of_nat loopMarker)) (of_nat loopMarker) drawColor]
            else [])
           @ drawHourMarkersFrom c steps drawColor (loopMarker + steps)
      else [])"
  by pat_completeness auto
termination
  by (relation "measure (\<lambda>(c, steps, drawColor, loopMarker). 60 - loopMarker)") auto

declare drawHourMarkersFrom.simps [simp del]

definition drawHourMarkers :: "clock \<Rightarrow> nat \<Rightarrow> byte \<Rightarrow> ring_cmd list" where
  "drawHourMarkers c steps drawColor = drawHourMarkersFrom c steps drawColor 0"

definition drawMarkers :: "clock \<Rightarrow> ring_cmd list" where
  "drawMarkers c =
     (if hoursMarkerColor c AND 0x0f \<noteq> COLOR_BLANK then
        if bit (hoursMarkerColor c) MARKER_BIT_HOUR_EVERY
        then drawHourMarkers c 5 (hoursMarkerColor c AND 0x0f)
        else if bit (hoursMarkerColor c) MARKER_BIT_HOUR_QUARTERS
        then drawHourMarkers c 15 (hoursMarkerColor c AND 0x0f)
        else if bit (hoursMarkerColor c) MARKER_BIT_HOUR_TWELTH
        then drawHourMarkers c 60 (hoursMarkerColor c AND 0x0f)
        else []
      else [])"

text \<open>\<open>drawClockFace\<close>: the position of the hours hand, the three phases, and the update of
  the previous values. The result is the new state of the variables and the commands
  sent; \<open>None\<close> when a fill loop does not return.\<close>

definition drawClockFace :: "clock \<Rightarrow> (clock \<times> ring_cmd list) option" where
  "drawClockFace c =
     (let c1 = c\<lparr>hoursHand := of_nat ((unat (hours c) mod 12) * 5 + unat (minutes c) div 12)\<rparr>
      in case drawHands c1 of None \<Rightarrow> None
         | Some d \<Rightarrow>
             Some (c1\<lparr>previousHoursHand := hoursHand c1, previousHours := hours c1,
                      previousMinutes := minutes c1, previousSeconds := seconds c1\<rparr>,
                   clearHands c1 @ d @ drawMarkers c1))"

definition resetPreviousValues :: "clock \<Rightarrow> clock" where
  "resetPreviousValues c =
     c\<lparr>previousHoursHand := 0, previousHours := 0, previousMinutes := 0, previousSeconds := 0\<rparr>"

text \<open>What \<open>getDateDs1307\<close> delivers: the decoded time and date of the real-time clock
  (the day of the week is read too, and used nowhere).\<close>

record rtc_reading =
  rtcSeconds :: byte
  rtcMinutes :: byte
  rtcHours :: byte
  rtcDayOfMonth :: byte
  rtcMonths :: byte
  rtcYears :: byte

text \<open>\<open>normalMode\<close>, on the variables and on the LEDs of the ring: the face is drawn when
  the second has changed.\<close>

definition normalMode :: "rtc_reading \<Rightarrow> clock \<times> leds \<Rightarrow> (clock \<times> leds) option" where
  "normalMode t s =
     (let c1 = (fst s)\<lparr>seconds := rtcSeconds t, minutes := rtcMinutes t, hours := rtcHours t,
                       dayOfMonth := rtcDayOfMonth t, months := rtcMonths t,
                       years := rtcYears t\<rparr>
      in if seconds c1 \<noteq> previousSeconds c1
         then (case drawClockFace c1 of None \<Rightarrow> None
               | Some (c2, cmds) \<Rightarrow> Some (c2, applyCmds cmds (snd s)))
         else Some (c1, snd s))"

text \<open>A run of the control loop in normal mode over successive readings of the
  real-time clock.\<close>

fun runTicks :: "rtc_reading list \<Rightarrow> clock \<times> leds \<Rightarrow> (clock \<times> leds) option" where
  "runTicks [] s = Some s"
| "runTicks (t # ts) s =
     (case normalMode t s of None \<Rightarrow> None | Some s' \<Rightarrow> runTicks ts s')"

text \<open>The state a forced redraw starts from: every menu leaves with the ring wiped
  (\<open>ringAnimation(COLOR_BLANK)\<close>) and the previous values reset
  (\<open>resetPreviousValues\<close>), and \<open>setup\<close> with \<open>ledWriteAllOff\<close> and the initial values.
  The first reading after it is the renderer's full, non-incremental drawing of the
  face; later readings are drawn differentially.\<close>

definition afterReset :: "clock \<Rightarrow> clock \<times> leds" where
  "afterReset c = (resetPreviousValues c, darkLeds)"

definition litAfterTicks :: "rtc_reading list \<Rightarrow> clock \<Rightarrow> (nat \<times> nat) list option" where
  "litAfterTicks ts c = map_option (\<lambda>s. litPositions (snd s)) (runTicks ts (afterReset c))"


section \<open>The styling menu\<close>

definition getOptionsByPosition :: "byte \<Rightarrow> clock \<Rightarrow> byte" where
  "getOptionsByPosition pos c =
     (if pos = SET_POSITION_HOURS then hoursColor c AND 0xf0
      else if pos = SET_POSITION_MINUTES then minutesColor c AND 0xf0
      else if pos = SET_POSITION_SECONDS then secondsColor c AND 0xf0
      else if pos = SET_POSITION_MARKERS then hoursMarkerColor c AND 0xf0
      else 0)"

definition setOptionsByPosition :: "byte \<Rightarrow> byte \<Rightarrow> clock \<Rightarrow> clock" where
  "setOptionsByPosition pos v c =
     (if pos = SET_POSITION_HOURS
      then c\<lparr>hoursColor := (hoursColor c AND 0x0f) OR (v AND 0xf0)\<rparr>
      else if pos = SET_POSITION_MINUTES
      then c\<lparr>minutesColor := (minutesColor c AND 0x0f) OR (v AND 0xf0)\<rparr>
      else if pos = SET_POSITION_SECONDS
      then c\<lparr>secondsColor := (secondsColor c AND 0x0f) OR (v AND 0xf0)\<rparr>
      else if pos = SET_POSITION_MARKERS
      then c\<lparr>hoursMarkerColor := (hoursMarkerColor c AND 0x0f) OR (v AND 0xf0)\<rparr>
      else c)"

definition getColorByPosition :: "byte \<Rightarrow> clock \<Rightarrow> byte" where
  "getColorByPosition pos c =
     (if pos = SET_POSITION_HOURS then hoursColor c AND 0x0f
      else if pos = SET_POSITION_MINUTES then minutesColor c AND 0x0f
      else if pos = SET_POSITION_SECONDS then secondsColor c AND 0x0f
      else if pos = SET_POSITION_MARKERS then hoursMarkerColor c AND 0x0f
      else 0)"

definition setColorByPosition :: "byte \<Rightarrow> byte \<Rightarrow> clock \<Rightarrow> clock" where
  "setColorByPosition pos v c =
     (if pos = SET_POSITION_HOURS
      then c\<lparr>hoursColor := (hoursColor c AND 0xf0) OR (v AND 0x0f)\<rparr>
      else if pos = SET_POSITION_MINUTES
      then c\<lparr>minutesColor := (minutesColor c AND 0xf0) OR (v AND 0x0f)\<rparr>
      else if pos = SET_POSITION_SECONDS
      then c\<lparr>secondsColor := (secondsColor c AND 0xf0) OR (v AND 0x0f)\<rparr>
      else if pos = SET_POSITION_MARKERS
      then c\<lparr>hoursMarkerColor := (hoursMarkerColor c AND 0xf0) OR (v AND 0x0f)\<rparr>
      else c)"

text \<open>The three key blocks of the loop of \<open>userSetFaceColorAndStyle\<close>, for the debounced
  key reading \<open>key\<close> of one round: button 1 cycles the style, button 3 the color, button 2
  confirms the field.\<close>

definition stylingEdit :: "byte \<Rightarrow> clock \<Rightarrow> clock" where
  "stylingEdit key c =
     (let c1 = (if key = KEY_PRESSED_1 then
                  (let v = getOptionsByPosition (position c) c;
                       v' = (if position c = SET_POSITION_MARKERS then
                               (if v = MARKER_HOUR_TWELTH then MARKER_HOUR_QUARTERS
                                else if v = MARKER_HOUR_QUARTERS then MARKER_HOUR_EVERY
                                else MARKER_HOUR_TWELTH)
                             else
                               (if v = COLOR_HANDS then COLOR_TRACE
                                else if v = COLOR_TRACE then COLOR_DOT
                                else COLOR_HANDS))
                   in (setOptionsByPosition (position c) v' c)\<lparr>settingsChangedFlag := 1\<rparr>)
                else c);
          c2 = (if key = KEY_PRESSED_3 then
                  (let v = getColorByPosition (position c1) c1 + 1;
                       v' = (if v > COLORS_END then COLORS_START else v)
                   in (setColorByPosition (position c1) v' c1)\<lparr>settingsChangedFlag := 1\<rparr>)
                else c1);
          c3 = (if key = KEY_PRESSED_2 then
                  (let pos = position c2 + 1 in
                   if pos = SET_POSITION_YEAR then c2\<lparr>position := SET_POSITION_MARKERS\<rparr>
                   else if pos > SET_POSITION_MARKERS
                   then c2\<lparr>position := SET_POSITION_NONE, exitFlag := True\<rparr>
                   else c2\<lparr>position := pos\<rparr>)
                else c2)
      in c3)"

text \<open>\<open>drawDisplayConfiguration\<close> sets the demonstration time 22:10:23 and forces a redraw.\<close>

definition drawDisplayConfiguration :: "clock \<Rightarrow> (clock \<times> ring_cmd list) option" where
  "drawDisplayConfiguration c =
     drawClockFace (resetPreviousValues (c\<lparr>hours := 22, minutes := 10, seconds := 23\<rparr>))"

text \<open>One round of the loop on the variables: the key blocks, then the redraw of the
  demonstration face after a change (\<open>blinkUpdate == 2\<close>, which buttons 1 and 3 set). The
  commands to the ring and to the digit display, the blink timer and the waits change
  none of the variables of the model and are left out.\<close>

definition stylingStep :: "byte \<Rightarrow> clock \<Rightarrow> clock option" where
  "stylingStep key c =
     (let c3 = stylingEdit key c in
      if key = KEY_PRESSED_1 \<or> key = KEY_PRESSED_3
      then map_option fst (drawDisplayConfiguration c3)
      else Some c3)"

text \<open>\<open>while (!exitFlag)\<close> over the key readings of the rounds. \<open>None\<close>: the loop has not
  ended when the readings are used up, or a round does not return.\<close>

fun stylingLoop :: "byte list \<Rightarrow> clock \<Rightarrow> clock option" where
  "stylingLoop [] c = (if exitFlag c then Some c else None)"
| "stylingLoop (k # ks) c =
     (if exitFlag c then Some c
      else case stylingStep k c of None \<Rightarrow> None | Some c' \<Rightarrow> stylingLoop ks c')"

text \<open>The persistent store with the log of the bytes written to it: \<open>EEPROM.write\<close>
  stores the byte and the log records the address and the value.\<close>

record persist =
  cells :: eeprom
  writeLog :: "(nat \<times> byte) list"

definition eepromWrite :: "nat \<Rightarrow> byte \<Rightarrow> persist \<Rightarrow> persist" where
  "eepromWrite a v P = P\<lparr>cells := (cells P)(a := v), writeLog := writeLog P @ [(a, v)]\<rparr>"

text \<open>The state in which the loop of the menu starts.\<close>

definition stylingEntry :: "clock \<Rightarrow> clock option" where
  "stylingEntry c =
     map_option fst
       (drawDisplayConfiguration
          (c\<lparr>exitFlag := False, settingsChangedFlag := 0, position := SET_POSITION_HOURS\<rparr>))"

text \<open>The commit after the loop.\<close>

definition stylingCommit :: "clock \<times> persist \<Rightarrow> clock \<times> persist" where
  "stylingCommit s =
     (let c = fst s; P = snd s;
          P' = (if settingsChangedFlag c > 0 then
                  eepromWrite (faceAddress (clockFace c) 3) (secondsColor c)
                    (eepromWrite (faceAddress (clockFace c) 2) (minutesColor c)
                      (eepromWrite (faceAddress (clockFace c) 1) (hoursColor c)
                        (eepromWrite (faceAddress (clockFace c) 0) (hoursMarkerColor c) P)))
                else P)
      in (resetPreviousValues c, P'))"

definition userSetFaceColorAndStyle :: "byte list \<Rightarrow> clock \<times> persist \<Rightarrow> (clock \<times> persist) option"
where
  "userSetFaceColorAndStyle keys s =
     (case stylingEntry (fst s) of None \<Rightarrow> None
      | Some c0 \<Rightarrow>
          (case stylingLoop keys c0 of None \<Rightarrow> None
           | Some c1 \<Rightarrow> Some (stylingCommit (c1, snd s))))"

text \<open>The fields the styling menu edits, and whether some round of a session changes the
  value of one of them.\<close>

definition appearance :: "clock \<Rightarrow> byte \<times> byte \<times> byte \<times> byte" where
  "appearance c = (hoursMarkerColor c, hoursColor c, minutesColor c, secondsColor c)"

fun stylingChanges :: "byte list \<Rightarrow> clock \<Rightarrow> bool" where
  "stylingChanges [] c = False"
| "stylingChanges (k # ks) c =
     (if exitFlag c then False
      else case stylingStep k c of None \<Rightarrow> False
           | Some c' \<Rightarrow> appearance c' \<noteq> appearance c \<or> stylingChanges ks c')"

definition sessionChanges :: "byte list \<Rightarrow> clock \<Rightarrow> bool" where
  "sessionChanges keys c =
     (case stylingEntry c of None \<Rightarrow> False | Some c0 \<Rightarrow> stylingChanges keys c0)"

section \<open>The settings menu\<close>

definition getSettingByPosition :: "byte \<Rightarrow> clock \<Rightarrow> byte" where
  "getSettingByPosition pos c =
     (if pos = SET_POSITION_CLOCK_FACE then clockFace c
      else if pos = SET_POSITION_TIME_DATE then ledSegmentsSettings c AND 0xf0
      else if pos = SET_POSITION_ALT_TIMER then ledSegmentsToggleSeconds c
      else if pos = SET_POSITION_FLASH_COLON then ledSegmentsSettings c AND 0x0f
      else 0)"

definition setSettingByPosition :: "byte \<Rightarrow> byte \<Rightarrow> clock \<Rightarrow> clock" where
  "setSettingByPosition pos v c =
     (if pos = SET_POSITION_CLOCK_FACE then c\<lparr>clockFace := v\<rparr>
      else if pos = SET_POSITION_TIME_DATE
      then c\<lparr>ledSegmentsSettings := (minutesColor c AND 0x0f) OR (v AND 0xf0)\<rparr>
      else if pos = SET_POSITION_ALT_TIMER then c\<lparr>ledSegmentsToggleSeconds := v\<rparr>
      else if pos = SET_POSITION_FLASH_COLON
      then c\<lparr>ledSegmentsSettings := (ledSegmentsSettings c AND 0xf0) OR (v AND 0x0f)\<rparr>
      else c)"

definition valueAltTimes :: "byte list" where
  "valueAltTimes = [1, 2, 5, 10, 15, 30, 60]"

text \<open>\<open>for (r = sizeof(valueAltTimes)-1; r > 0; r--)\<close>, from the current \<open>r\<close>.\<close>

fun findPreviousAltTimeFrom :: "nat \<Rightarrow> byte \<Rightarrow> byte" where
  "findPreviousAltTimeFrom 0 v = valueAltTimes ! (length valueAltTimes - 1)"
| "findPreviousAltTimeFrom (Suc r) v =
     (if valueAltTimes ! Suc r = v then valueAltTimes ! r
      else findPreviousAltTimeFrom r v)"

definition findPreviousAltTime :: "byte \<Rightarrow> byte" where
  "findPreviousAltTime v = findPreviousAltTimeFrom (length valueAltTimes - 1) v"

text \<open>\<open>for (r = 0; r < sizeof(valueAltTimes)-1; r++)\<close>, from the current \<open>r\<close>.\<close>

function findNextAltTimeFrom :: "nat \<Rightarrow> byte \<Rightarrow> byte" where
  "findNextAltTimeFrom r v =
     (if r < length valueAltTimes - 1
      then (if valueAltTimes ! r = v then valueAltTimes ! (r + 1)
            else findNextAltTimeFrom (r + 1) v)
      else valueAltTimes ! 0)"
  by pat_completeness auto
termination
  by (relation "measure (\<lambda>(r, v). length valueAltTimes - 1 - r)") auto

declare findNextAltTimeFrom.simps [simp del]

definition findNextAltTime :: "byte \<Rightarrow> byte" where
  "findNextAltTime v = findNextAltTimeFrom 0 v"

text \<open>The three key blocks of the loop of \<open>userSettings\<close>: button 1 is Dec, button 3 is
  Inc, button 2 confirms the field.\<close>

definition settingsEdit :: "byte \<Rightarrow> clock \<Rightarrow> clock" where
  "settingsEdit key c =
     (let c1 = (if key = KEY_PRESSED_1 then
                  (let v = getSettingByPosition (position c) c;
                       v' = (if position c = SET_POSITION_CLOCK_FACE then
                               (if unat (v - 1) \<ge> DEFAULT_FACTORY_CLOCK_FACES then 0 else v - 1)
                             else if position c = SET_POSITION_TIME_DATE then
                               (if v = DISPLAY_TIME_AND_DATE then DISPLAY_TIME
                                else if v = DISPLAY_TIME then DISPLAY_DATE
                                else if v = DISPLAY_DATE then DISPLAY_NONE
                                else DISPLAY_TIME_AND_DATE)
                             else if position c = SET_POSITION_ALT_TIMER
                             then findPreviousAltTime v
                             else if position c = SET_POSITION_FLASH_COLON then
                               (if v = DISPLAY_COLONS_FLASH_EVERY_SECOND then DISPLAY_COLONS_ON
                                else DISPLAY_COLONS_FLASH_EVERY_SECOND)
                             else v)
                   in (setSettingByPosition (position c) v' c)\<lparr>settingsChangedFlag := 1\<rparr>)
                else c);
          c2 = (if key = KEY_PRESSED_3 then
                  (let v = getSettingByPosition (position c1) c1;
                       v' = (if position c1 = SET_POSITION_CLOCK_FACE then
                               (if unat (v + 1) \<ge> DEFAULT_FACTORY_CLOCK_FACES
                                then of_nat (DEFAULT_FACTORY_CLOCK_FACES - 1) else v + 1)
                             else if position c1 = SET_POSITION_TIME_DATE then
                               (if v = DISPLAY_TIME_AND_DATE then DISPLAY_NONE
                                else if v = DISPLAY_NONE then DISPLAY_DATE
                                else if v = DISPLAY_DATE then DISPLAY_TIME
                                else DISPLAY_TIME_AND_DATE)
                             else if position c1 = SET_POSITION_ALT_TIMER
                             then findNextAltTime v
                             else if position c1 = SET_POSITION_FLASH_COLON then
                               (if v = DISPLAY_COLONS_FLASH_EVERY_SECOND then DISPLAY_COLONS_ON
                                else DISPLAY_COLONS_FLASH_EVERY_SECOND)
                             else v)
                   in (setSettingByPosition (position c1) v' c1)\<lparr>settingsChangedFlag := 1\<rparr>)
                else c1);
          c3 = (if key = KEY_PRESSED_2 then
                  (let pos = position c2 + 1 in
                   if pos > SET_POSITION_FLASH_COLON
                   then c2\<lparr>position := SET_POSITION_NONE, exitFlag := True\<rparr>
                   else c2\<lparr>position := pos\<rparr>)
                else c2)
      in c3)"


section \<open>The time and date menu\<close>

definition valueTimeDateMin :: "byte list" where
  "valueTimeDateMin = [0, 0, 0, 0, 1, 1]"

definition valueTimeDateMax :: "byte list" where
  "valueTimeDateMax = [23, 59, 59, 99, 12, 31]"

text \<open>Reading a constant array at an \<open>int\<close> index; an index outside the array is an error
  value.\<close>

datatype menu_error = ArrayIndexOutOfBounds int

definition arrayRead :: "byte list \<Rightarrow> int \<Rightarrow> menu_error + byte" where
  "arrayRead xs i =
     (if 0 \<le> i \<and> i < int (length xs) then Inr (xs ! nat i)
      else Inl (ArrayIndexOutOfBounds i))"

definition getValueByPosition :: "byte \<Rightarrow> clock \<Rightarrow> byte" where
  "getValueByPosition pos c =
     (if pos = SET_POSITION_HOURS then hours c
      else if pos = SET_POSITION_MINUTES then minutes c
      else if pos = SET_POSITION_SECONDS then seconds c
      else if pos = SET_POSITION_YEAR then years c
      else if pos = SET_POSITION_MONTH then months c
      else if pos = SET_POSITION_DAY then dayOfMonth c
      else 0)"

definition setValueByPosition :: "byte \<Rightarrow> byte \<Rightarrow> clock \<Rightarrow> clock" where
  "setValueByPosition pos v c =
     (if pos = SET_POSITION_HOURS then c\<lparr>hours := v\<rparr>
      else if pos = SET_POSITION_MINUTES then c\<lparr>minutes := v\<rparr>
      else if pos = SET_POSITION_SECONDS then c\<lparr>seconds := v\<rparr>
      else if pos = SET_POSITION_YEAR then c\<lparr>years := v\<rparr>
      else if pos = SET_POSITION_MONTH then c\<lparr>months := v\<rparr>
      else if pos = SET_POSITION_DAY then c\<lparr>dayOfMonth := v\<rparr>
      else c)"

definition getDaysMaxBasedOnMonthAndLeapYear :: "clock \<Rightarrow> byte" where
  "getDaysMaxBasedOnMonthAndLeapYear c =
     (if months c = 4 \<or> months c = 6 \<or> months c = 9 \<or> months c = 11 then 30
      else if months c = 2 then (if years c mod 4 = 0 then 29 else 28)
      else 31)"

text \<open>The three key blocks of the loop of \<open>userSetTimeAndDate\<close>. The local \<open>value\<close> is an
  \<open>int8_t\<close>: the byte keeps its bits, \<open>sint\<close> reads it in the comparisons, and the bytes
  of the constant arrays are read unsigned (\<open>uint\<close>).\<close>

definition timeDateDec :: "clock \<Rightarrow> menu_error + clock" where
  "timeDateDec c =
     (let v = getValueByPosition (position c) c - 1 in
      case arrayRead valueTimeDateMin (uint (position c) - 1) of
        Inl e \<Rightarrow> Inl e
      | Inr mn \<Rightarrow>
          if sint v < uint mn then
            (if position c = SET_POSITION_DAY
             then Inr ((setValueByPosition (position c)
                          (getDaysMaxBasedOnMonthAndLeapYear c) c)\<lparr>settingsChangedFlag := 1\<rparr>)
             else case arrayRead valueTimeDateMax (uint (position c) - 1) of
                    Inl e \<Rightarrow> Inl e
                  | Inr mx \<Rightarrow>
                      Inr ((setValueByPosition (position c) mx c)\<lparr>settingsChangedFlag := 1\<rparr>))
          else Inr ((setValueByPosition (position c) v c)\<lparr>settingsChangedFlag := 1\<rparr>))"

definition timeDateInc :: "clock \<Rightarrow> menu_error + clock" where
  "timeDateInc c =
     (let v = getValueByPosition (position c) c + 1 in
      if position c = SET_POSITION_DAY then
        (if sint v > sint (getDaysMaxBasedOnMonthAndLeapYear c) then
           (case arrayRead valueTimeDateMin (uint (position c) - 1) of
              Inl e \<Rightarrow> Inl e
            | Inr mn \<Rightarrow>
                Inr ((setValueByPosition (position c) mn c)\<lparr>settingsChangedFlag := 1\<rparr>))
         else Inr ((setValueByPosition (position c) v c)\<lparr>settingsChangedFlag := 1\<rparr>))
      else
        (case arrayRead valueTimeDateMax (uint (position c) - 1) of
           Inl e \<Rightarrow> Inl e
         | Inr mx \<Rightarrow>
             if sint v > uint mx then
               (case arrayRead valueTimeDateMin (uint (position c) - 1) of
                  Inl e \<Rightarrow> Inl e
                | Inr mn \<Rightarrow>
                    Inr ((setValueByPosition (position c) mn c)\<lparr>settingsChangedFlag := 1\<rparr>))
             else Inr ((setValueByPosition (position c) v c)\<lparr>settingsChangedFlag := 1\<rparr>)))"

definition timeDateConfirm :: "clock \<Rightarrow> clock" where
  "timeDateConfirm c =
     (let pos = position c + 1 in
      if pos > SET_POSITION_DAY then c\<lparr>position := SET_POSITION_NONE, exitFlag := True\<rparr>
      else c\<lparr>position := pos\<rparr>)"

definition timeDateEdit :: "byte \<Rightarrow> clock \<Rightarrow> menu_error + clock" where
  "timeDateEdit key c =
     (case (if key = KEY_PRESSED_1 then timeDateDec c else Inr c) of
        Inl e \<Rightarrow> Inl e
      | Inr c1 \<Rightarrow>
          (case (if key = KEY_PRESSED_3 then timeDateInc c1 else Inr c1) of
             Inl e \<Rightarrow> Inl e
           | Inr c2 \<Rightarrow> Inr (if key = KEY_PRESSED_2 then timeDateConfirm c2 else c2)))"

section \<open>The hands, seen one at a time\<close>

text \<open>The renderer treats the three hands by three blocks of the same shape. The
  functions below name, for each hand, the variables and the ring its blocks use.\<close>

datatype hand = Hours | Minutes | Seconds

fun handColor :: "hand \<Rightarrow> clock \<Rightarrow> byte" where
  "handColor Hours c = hoursColor c"
| "handColor Minutes c = minutesColor c"
| "handColor Seconds c = secondsColor c"

fun handValue :: "hand \<Rightarrow> clock \<Rightarrow> byte" where
  "handValue Hours c = hoursHand c"
| "handValue Minutes c = minutes c"
| "handValue Seconds c = seconds c"

fun handPrevious :: "hand \<Rightarrow> clock \<Rightarrow> byte" where
  "handPrevious Hours c = previousHoursHand c"
| "handPrevious Minutes c = previousMinutes c"
| "handPrevious Seconds c = previousSeconds c"

text \<open>The bit of the hand's own ring in a ring mask.\<close>

fun handRing :: "hand \<Rightarrow> nat" where
  "handRing Hours = 2"
| "handRing Minutes = 1"
| "handRing Seconds = 0"

fun clearBlock :: "hand \<Rightarrow> clock \<Rightarrow> ring_cmd list" where
  "clearBlock Hours c = clearHours c"
| "clearBlock Minutes c = clearMinutes c"
| "clearBlock Seconds c = clearSeconds c"

fun drawBlock :: "hand \<Rightarrow> clock \<Rightarrow> ring_cmd list option" where
  "drawBlock Hours c = drawHours c"
| "drawBlock Minutes c = drawMinutes c"
| "drawBlock Seconds c = drawSeconds c"


section \<open>Concrete states\<close>

text \<open>Factory face 2 (minutes byte \<open>BLANK|DOT\<close>) in the settings menu, on the field of the
  display mode, with the display settings as \<open>writeFactorySettingsToEeprom\<close> stores them.\<close>

definition face2OnDisplayMode :: clock where
  "face2OnDisplayMode =
     initialClock\<lparr>clockFace := 2,
       hoursMarkerColor := COLOR_BLUE OR MARKER_HOUR_EVERY,
       hoursColor := COLOR_BLANK OR COLOR_DOT,
       minutesColor := COLOR_BLANK OR COLOR_DOT,
       secondsColor := COLOR_RED OR COLOR_TRACE,
       ledSegmentsSettings := DISPLAY_TIME_AND_DATE OR DISPLAY_COLONS_FLASH_EVERY_SECOND,
       position := SET_POSITION_TIME_DATE\<rparr>"

text \<open>The settings menu on the field of the face index, with face index \<open>f\<close>.\<close>

definition onFaceIndex :: "byte \<Rightarrow> clock" where
  "onFaceIndex f = initialClock\<lparr>clockFace := f, position := SET_POSITION_CLOCK_FACE\<rparr>"

text \<open>The time and date menu on the field of the day.\<close>

definition onDay :: "byte \<Rightarrow> byte \<Rightarrow> byte \<Rightarrow> clock" where
  "onDay y m d = initialClock\<lparr>years := y, months := m, dayOfMonth := d,
     position := SET_POSITION_DAY\<rparr>"

section \<open>Facts about the constants\<close>

lemmas color_defs = COLOR_BLANK_def COLOR_RED_def COLOR_GREEN_def COLOR_ORANGE_def
  COLOR_BLUE_def COLOR_PURPLE_def COLOR_CYAN_def COLOR_WHITE_def COLOR_HANDS_def
  COLOR_DOT_def COLOR_TRACE_def MARKER_HOUR_EVERY_def MARKER_HOUR_QUARTERS_def
  MARKER_HOUR_TWELTH_def COLORS_START_def COLORS_END_def

lemmas bit_defs = COLOR_BIT_HANDS_def COLOR_BIT_DOT_def COLOR_BIT_TRACE_def
  MARKER_BIT_HOUR_EVERY_def MARKER_BIT_HOUR_QUARTERS_def MARKER_BIT_HOUR_TWELTH_def

lemmas ring_defs = RING_NONE_def RING_SECONDS_def RING_MINUTES_def RING_MINUTES_SECONDS_def
  RING_HOURS_def RING_HOURS_SECONDS_def RING_HOURS_MINUTES_def
  RING_HOURS_MINUTES_SECONDS_def

lemmas eeprom_defs = EEPROM_CLOCK_FACE_NUMBER_def EEPROM_DATE_TIME_AND_COLON_def
  EEPROM_ALTERNATE_COUNTER_def EEPROM_CLOCK_FACE_SETTINGS_def DEFAULT_CLOCK_FACE_LENGTH_def
  DEFAULT_FACTORY_CLOCK_FACES_def

lemmas key_defs = KEY_PRESSED_NONE_def KEY_PRESSED_1_def KEY_PRESSED_2_def KEY_PRESSED_3_def

lemmas position_defs = SET_POSITION_NONE_def SET_POSITION_HOURS_def SET_POSITION_MINUTES_def
  SET_POSITION_SECONDS_def SET_POSITION_YEAR_def SET_POSITION_MONTH_def SET_POSITION_DAY_def
  SET_POSITION_MARKERS_def SET_POSITION_CLOCK_FACE_def SET_POSITION_TIME_DATE_def
  SET_POSITION_ALT_TIMER_def SET_POSITION_FLASH_COLON_def

lemmas display_defs = DISPLAY_COLONS_OFF_def DISPLAY_COLONS_ON_def
  DISPLAY_COLONS_FLASH_EVERY_SECOND_def DISPLAY_NONE_def DISPLAY_TIME_def DISPLAY_DATE_def
  DISPLAY_TIME_AND_DATE_def

lemma factory_table_length: "length DEFAULT_FACTORY_COLORS = 10"
  by (simp add: DEFAULT_FACTORY_COLORS_def)

lemma factory_rows_checked:
  "list_all (\<lambda>n. ((DEFAULT_FACTORY_COLORS ! n ! 1) AND 0x0f \<noteq> 0
                    \<or> (DEFAULT_FACTORY_COLORS ! n ! 2) AND 0x0f \<noteq> 0
                    \<or> (DEFAULT_FACTORY_COLORS ! n ! 3) AND 0x0f \<noteq> 0)
                  \<and> DEFAULT_FACTORY_COLORS ! n ! 3 \<noteq> 0) [0..<10]"
  by code_simp

lemma factory_row_some_hand_on:
  assumes "n < 10"
  shows "(DEFAULT_FACTORY_COLORS ! n ! 1) AND 0x0f \<noteq> 0
       \<or> (DEFAULT_FACTORY_COLORS ! n ! 2) AND 0x0f \<noteq> 0
       \<or> (DEFAULT_FACTORY_COLORS ! n ! 3) AND 0x0f \<noteq> 0"
  using factory_rows_checked assms unfolding list_all_iff by simp

lemma factory_row_seconds_nonzero:
  assumes "n < 10"
  shows "DEFAULT_FACTORY_COLORS ! n ! 3 \<noteq> 0"
  using factory_rows_checked assms unfolding list_all_iff by simp

section \<open>Loading the persisted settings\<close>

lemma load_zero_record:
  assumes n: "unat (clockFace c) < 10"
    and z0: "E (faceAddress (clockFace c) 0) = 0"
    and z1: "E (faceAddress (clockFace c) 1) = 0"
    and z2: "E (faceAddress (clockFace c) 2) = 0"
    and z3: "E (faceAddress (clockFace c) 3) = 0"
  shows "loadFaceSettingsOrFactoryDefaults E c =
           Inr (c\<lparr>hoursMarkerColor := DEFAULT_FACTORY_COLORS ! unat (clockFace c) ! 0,
                   hoursColor := DEFAULT_FACTORY_COLORS ! unat (clockFace c) ! 1,
                   minutesColor := DEFAULT_FACTORY_COLORS ! unat (clockFace c) ! 2,
                   secondsColor := DEFAULT_FACTORY_COLORS ! unat (clockFace c) ! 3\<rparr>)"
  using n z0 z1 z2 z3
  by (simp add: loadFaceSettingsOrFactoryDefaults_def Let_def factory_table_length)

text \<open>
  Claim C2. For every face index below 10 whose persisted four-byte record reads back as
  four zero bytes, loading the face yields the factory-default record of that same index
  as the marker, hours, minutes and seconds bytes. That record is not the all-zero record,
  and at least one of its three hands has a color other than 0, so the face loaded is not
  one with every hand off.
\<close>

theorem zero_record_loads_factory_default:
  assumes face: "unat (clockFace c) < DEFAULT_FACTORY_CLOCK_FACES"
    and z0: "E (faceAddress (clockFace c) 0) = 0"
    and z1: "E (faceAddress (clockFace c) 1) = 0"
    and z2: "E (faceAddress (clockFace c) 2) = 0"
    and z3: "E (faceAddress (clockFace c) 3) = 0"
  shows "loadFaceSettingsOrFactoryDefaults E c =
           Inr (c\<lparr>hoursMarkerColor := DEFAULT_FACTORY_COLORS ! unat (clockFace c) ! 0,
                   hoursColor := DEFAULT_FACTORY_COLORS ! unat (clockFace c) ! 1,
                   minutesColor := DEFAULT_FACTORY_COLORS ! unat (clockFace c) ! 2,
                   secondsColor := DEFAULT_FACTORY_COLORS ! unat (clockFace c) ! 3\<rparr>)
         \<and> (DEFAULT_FACTORY_COLORS ! unat (clockFace c) ! 0,
            DEFAULT_FACTORY_COLORS ! unat (clockFace c) ! 1,
            DEFAULT_FACTORY_COLORS ! unat (clockFace c) ! 2,
            DEFAULT_FACTORY_COLORS ! unat (clockFace c) ! 3) \<noteq> (0, 0, 0, 0)
         \<and> ((DEFAULT_FACTORY_COLORS ! unat (clockFace c) ! 1) AND 0x0f \<noteq> 0
            \<or> (DEFAULT_FACTORY_COLORS ! unat (clockFace c) ! 2) AND 0x0f \<noteq> 0
            \<or> (DEFAULT_FACTORY_COLORS ! unat (clockFace c) ! 3) AND 0x0f \<noteq> 0)"
proof -
  from face have n: "unat (clockFace c) < 10"
    by (simp add: DEFAULT_FACTORY_CLOCK_FACES_def)
  show ?thesis
    using load_zero_record [OF n z0 z1 z2 z3] factory_row_some_hand_on [OF n] factory_row_seconds_nonzero [OF n]
    by simp
qed

theorem zero_record_loads_factory_default_witness:
  "unat (clockFace (initialClock\<lparr>clockFace := 7\<rparr>)) < DEFAULT_FACTORY_CLOCK_FACES
   \<and> blankEeprom (faceAddress (clockFace (initialClock\<lparr>clockFace := 7\<rparr>)) 0) = 0
   \<and> blankEeprom (faceAddress (clockFace (initialClock\<lparr>clockFace := 7\<rparr>)) 1) = 0
   \<and> blankEeprom (faceAddress (clockFace (initialClock\<lparr>clockFace := 7\<rparr>)) 2) = 0
   \<and> blankEeprom (faceAddress (clockFace (initialClock\<lparr>clockFace := 7\<rparr>)) 3) = 0
   \<and> loadFaceSettingsOrFactoryDefaults blankEeprom (initialClock\<lparr>clockFace := 7\<rparr>) =
       Inr (initialClock\<lparr>clockFace := 7, hoursMarkerColor := 0x00, hoursColor := 0x20,
              minutesColor := 0x20, secondsColor := 0x41\<rparr>)"
proof -
  have a: "unat (clockFace (initialClock\<lparr>clockFace := 7\<rparr>)) < DEFAULT_FACTORY_CLOCK_FACES"
    by (simp add: DEFAULT_FACTORY_CLOCK_FACES_def)
  have b: "blankEeprom (faceAddress (clockFace (initialClock\<lparr>clockFace := 7\<rparr>)) k) = 0" for k
    by (simp add: blankEeprom_def)
  have r: "DEFAULT_FACTORY_COLORS ! 7 = [0x00, 0x20, 0x20, 0x41]"
    by (simp add: DEFAULT_FACTORY_COLORS_def color_defs)
  show ?thesis
    using a b zero_record_loads_factory_default
      [OF a b [of 0] b [of 1] b [of 2] b [of 3]]
    by (simp add: r)
qed

text \<open>
  Claim C4. A stored face index outside 0..9 should load as face index 0. The guard of
  \<open>loadSettingsOrFactoryDefaults\<close> compares with \<open>>\<close> where the other guards of the
  face index compare with \<open>>=\<close>: the stored byte 10 passes it and is loaded as face index
  10.
\<close>

theorem stored_face_index_ten_is_kept:
  "clockFace (loadSettingsOrFactoryDefaults (blankEeprom(EEPROM_CLOCK_FACE_NUMBER := 10))
      initialClock) = 10"
  by (simp add: loadSettingsOrFactoryDefaults_def blankEeprom_def eeprom_defs)

text \<open>
  Claim C10. With the stored face index 10 and an unwritten record at its addresses
  (110 to 113), the face loader reads row 10 of the factory table, which has the rows 0 to
  9 only: the read is out of bounds.
\<close>

theorem stored_face_index_ten_reads_beyond_table:
  "loadFaceSettingsOrFactoryDefaults (blankEeprom(EEPROM_CLOCK_FACE_NUMBER := 10))
     (loadSettingsOrFactoryDefaults (blankEeprom(EEPROM_CLOCK_FACE_NUMBER := 10)) initialClock)
   = Inl (FactoryTableOutOfBounds 10)"
  by (simp add: loadFaceSettingsOrFactoryDefaults_def loadSettingsOrFactoryDefaults_def
      blankEeprom_def eeprom_defs faceAddress_def factory_table_length)

text \<open>
  Claim C8, as stated: face index 3 with an all-zero record would load as
  \<open>{ORANGE|TWELTH, BLANK|DOT, GREEN|TRACE, BLUE|TRACE}\<close>. It does not.
\<close>

theorem face_three_default_counterexample:
  "loadFaceSettingsOrFactoryDefaults blankEeprom (initialClock\<lparr>clockFace := 3\<rparr>)
   \<noteq> Inr (initialClock\<lparr>clockFace := 3,
            hoursMarkerColor := COLOR_ORANGE OR MARKER_HOUR_TWELTH,
            hoursColor := COLOR_BLANK OR COLOR_DOT,
            minutesColor := COLOR_GREEN OR COLOR_TRACE,
            secondsColor := COLOR_BLUE OR COLOR_TRACE\<rparr>)"
  by (simp add: loadFaceSettingsOrFactoryDefaults_def blankEeprom_def color_defs
      faceAddress_def factory_table_length DEFAULT_FACTORY_COLORS_def initialClock_def)

text \<open>
  Claim C8, amended. When face index 3 is loaded and its stored record is all zero, the
  loader substitutes \<open>{RED|QUARTERS, BLANK|DOT, BLANK|DOT, BLUE|TRACE}\<close>, row 3 of the
  factory table; the record \<open>{ORANGE|TWELTH, BLANK|DOT, GREEN|TRACE, BLUE|TRACE}\<close> is row 4
  and is what face index 4 loads in the same situation.
\<close>

theorem face_three_and_four_defaults:
  assumes z0: "E (faceAddress (clockFace c) 0) = 0"
    and z1: "E (faceAddress (clockFace c) 1) = 0"
    and z2: "E (faceAddress (clockFace c) 2) = 0"
    and z3: "E (faceAddress (clockFace c) 3) = 0"
  shows "(clockFace c = 3 \<longrightarrow>
            loadFaceSettingsOrFactoryDefaults E c =
              Inr (c\<lparr>hoursMarkerColor := COLOR_RED OR MARKER_HOUR_QUARTERS,
                      hoursColor := COLOR_BLANK OR COLOR_DOT,
                      minutesColor := COLOR_BLANK OR COLOR_DOT,
                      secondsColor := COLOR_BLUE OR COLOR_TRACE\<rparr>))
       \<and> (clockFace c = 4 \<longrightarrow>
            loadFaceSettingsOrFactoryDefaults E c =
              Inr (c\<lparr>hoursMarkerColor := COLOR_ORANGE OR MARKER_HOUR_TWELTH,
                      hoursColor := COLOR_BLANK OR COLOR_DOT,
                      minutesColor := COLOR_GREEN OR COLOR_TRACE,
                      secondsColor := COLOR_BLUE OR COLOR_TRACE\<rparr>))"
proof (intro conjI impI)
  assume f: "clockFace c = 3"
  have n: "unat (clockFace c) = 3" by (simp add: f)
  then have "unat (clockFace c) < 10" by simp
  from load_zero_record [OF this z0 z1 z2 z3]
  show "loadFaceSettingsOrFactoryDefaults E c =
          Inr (c\<lparr>hoursMarkerColor := COLOR_RED OR MARKER_HOUR_QUARTERS,
                  hoursColor := COLOR_BLANK OR COLOR_DOT,
                  minutesColor := COLOR_BLANK OR COLOR_DOT,
                  secondsColor := COLOR_BLUE OR COLOR_TRACE\<rparr>)"
    by (simp add: n DEFAULT_FACTORY_COLORS_def)
next
  assume f: "clockFace c = 4"
  have n: "unat (clockFace c) = 4" by (simp add: f)
  then have "unat (clockFace c) < 10" by simp
  from load_zero_record [OF this z0 z1 z2 z3]
  show "loadFaceSettingsOrFactoryDefaults E c =
          Inr (c\<lparr>hoursMarkerColor := COLOR_ORANGE OR MARKER_HOUR_TWELTH,
                  hoursColor := COLOR_BLANK OR COLOR_DOT,
                  minutesColor := COLOR_GREEN OR COLOR_TRACE,
                  secondsColor := COLOR_BLUE OR COLOR_TRACE\<rparr>)"
    by (simp add: n DEFAULT_FACTORY_COLORS_def)
qed


theorem face_three_and_four_defaults_witness:
  "blankEeprom (faceAddress (clockFace (initialClock\<lparr>clockFace := 3\<rparr>)) 0) = 0
   \<and> blankEeprom (faceAddress (clockFace (initialClock\<lparr>clockFace := 3\<rparr>)) 1) = 0
   \<and> blankEeprom (faceAddress (clockFace (initialClock\<lparr>clockFace := 3\<rparr>)) 2) = 0
   \<and> blankEeprom (faceAddress (clockFace (initialClock\<lparr>clockFace := 3\<rparr>)) 3) = 0
   \<and> clockFace (initialClock\<lparr>clockFace := 3\<rparr>) = 3
   \<and> loadFaceSettingsOrFactoryDefaults blankEeprom (initialClock\<lparr>clockFace := 3\<rparr>) =
       Inr (initialClock\<lparr>clockFace := 3, hoursMarkerColor := 0x21, hoursColor := 0x20,
              minutesColor := 0x20, secondsColor := 0x44\<rparr>)
   \<and> clockFace (initialClock\<lparr>clockFace := 4\<rparr>) = 4
   \<and> loadFaceSettingsOrFactoryDefaults blankEeprom (initialClock\<lparr>clockFace := 4\<rparr>) =
       Inr (initialClock\<lparr>clockFace := 4, hoursMarkerColor := 0x43, hoursColor := 0x20,
              minutesColor := 0x42, secondsColor := 0x44\<rparr>)"
proof -
  have b: "blankEeprom (faceAddress (clockFace (initialClock\<lparr>clockFace := f\<rparr>)) k) = 0" for f k
    by (simp add: blankEeprom_def)
  show ?thesis
    using b [of 3]
      face_three_and_four_defaults [of blankEeprom "initialClock\<lparr>clockFace := 3\<rparr>",
        OF b [of 3 0] b [of 3 1] b [of 3 2] b [of 3 3]]
      face_three_and_four_defaults [of blankEeprom "initialClock\<lparr>clockFace := 4\<rparr>",
        OF b [of 4 0] b [of 4 1] b [of 4 2] b [of 4 3]]
    by (simp add: color_defs)
qed


section \<open>The settings menu: display mode and face index\<close>

text \<open>
  Claim C5. An edit of the display-mode field should leave the colon-mode nibble of the
  packed settings byte as it was. \<open>setSettingByPosition\<close> builds the new byte from the low
  nibble of \<open>minutesColor\<close>, not of \<open>ledSegmentsSettings\<close> (its branch for the colon field
  does use \<open>ledSegmentsSettings\<close>): on factory face 2, whose minutes byte has color 0, Dec
  and Inc on the display mode both turn the colon nibble from "flash every second" (2)
  into 0.
\<close>

theorem display_mode_edit_overwrites_colon_nibble:
  "ledSegmentsSettings face2OnDisplayMode AND 0x0f = DISPLAY_COLONS_FLASH_EVERY_SECOND
   \<and> ledSegmentsSettings (settingsEdit KEY_PRESSED_1 face2OnDisplayMode) AND 0x0f = 0
   \<and> ledSegmentsSettings (settingsEdit KEY_PRESSED_3 face2OnDisplayMode) AND 0x0f = 0"
  by (simp add: face2OnDisplayMode_def initialClock_def settingsEdit_def
      getSettingByPosition_def setSettingByPosition_def key_defs position_defs display_defs
      color_defs Let_def)

lemma settings_inc_face:
  assumes "position c = SET_POSITION_CLOCK_FACE"
  shows "clockFace (settingsEdit KEY_PRESSED_3 c) =
           (if unat (clockFace c + 1) \<ge> 10 then 9 else clockFace c + 1)"
  using assms
  by (simp add: settingsEdit_def getSettingByPosition_def setSettingByPosition_def key_defs
      position_defs Let_def eeprom_defs)

lemma settings_dec_face:
  assumes "position c = SET_POSITION_CLOCK_FACE"
  shows "clockFace (settingsEdit KEY_PRESSED_1 c) =
           (if unat (clockFace c - 1) \<ge> 10 then 0 else clockFace c - 1)"
  using assms
  by (simp add: settingsEdit_def getSettingByPosition_def setSettingByPosition_def key_defs
      position_defs Let_def eeprom_defs)

lemma unat_byte_succ:
  fixes f :: byte
  assumes "unat f < 255"
  shows "unat (f + 1) = unat f + 1"
  using assms by (simp add: unat_word_ariths)

lemma unat_byte_pred:
  fixes f :: byte
  assumes "0 < unat f"
  shows "unat (f - 1) = unat f - 1"
proof -
  from assms have "f \<noteq> 0" by (simp add: unat_gt_0)
  then show ?thesis by (rule unat_minus_one)
qed

lemma unat_byte_minus_one: "unat (- 1 :: byte) = 255"
  by (simp add: unsigned_minus_1_eq_mask mask_eq_exp_minus_1)

text \<open>
  Claim C6, as stated: in the settings menu Inc on face index 9 would yield 0 and Dec on
  face index 0 would yield 9. Neither happens.
\<close>

theorem settings_face_index_wrap_counterexample:
  "clockFace (settingsEdit KEY_PRESSED_3 (onFaceIndex 9)) \<noteq> 0
   \<and> clockFace (settingsEdit KEY_PRESSED_1 (onFaceIndex 0)) \<noteq> 9"
  by (simp add: onFaceIndex_def settings_inc_face settings_dec_face unat_byte_minus_one)

text \<open>
  Claim C6, amended. In the settings menu the face index field stops at the ends of 0..9:
  Inc on face index 9 yields 9 and Dec on face index 0 yields 0. Below 9, Inc adds one;
  from 1 to 9, Dec subtracts one.
\<close>

theorem settings_face_index_saturates:
  assumes pos: "position c = SET_POSITION_CLOCK_FACE"
  shows "(clockFace c = 9 \<longrightarrow> clockFace (settingsEdit KEY_PRESSED_3 c) = 9)
       \<and> (clockFace c = 0 \<longrightarrow> clockFace (settingsEdit KEY_PRESSED_1 c) = 0)
       \<and> (unat (clockFace c) < 9 \<longrightarrow>
            clockFace (settingsEdit KEY_PRESSED_3 c) = clockFace c + 1)
       \<and> (0 < unat (clockFace c) \<and> unat (clockFace c) < 10 \<longrightarrow>
            clockFace (settingsEdit KEY_PRESSED_1 c) = clockFace c - 1)"
proof (intro conjI impI)
  assume "clockFace c = 9"
  then show "clockFace (settingsEdit KEY_PRESSED_3 c) = 9"
    by (simp add: settings_inc_face [OF pos])
next
  assume "clockFace c = 0"
  then show "clockFace (settingsEdit KEY_PRESSED_1 c) = 0"
    by (simp add: settings_dec_face [OF pos] unat_byte_minus_one)
next
  assume a: "unat (clockFace c) < 9"
  then have "unat (clockFace c + 1) = unat (clockFace c) + 1"
    by (intro unat_byte_succ) simp
  with a show "clockFace (settingsEdit KEY_PRESSED_3 c) = clockFace c + 1"
    by (simp add: settings_inc_face [OF pos])
next
  assume a: "0 < unat (clockFace c) \<and> unat (clockFace c) < 10"
  then have "unat (clockFace c - 1) = unat (clockFace c) - 1"
    by (intro unat_byte_pred) simp
  moreover from a have "unat (clockFace c) - 1 < 10" by arith
  ultimately show "clockFace (settingsEdit KEY_PRESSED_1 c) = clockFace c - 1"
    by (simp add: settings_dec_face [OF pos])
qed

theorem settings_face_index_saturates_witness:
  "position (onFaceIndex 9) = SET_POSITION_CLOCK_FACE
   \<and> clockFace (onFaceIndex 9) = 9
   \<and> clockFace (settingsEdit KEY_PRESSED_3 (onFaceIndex 9)) = 9
   \<and> 0 < unat (clockFace (onFaceIndex 9)) \<and> unat (clockFace (onFaceIndex 9)) < 10
   \<and> clockFace (settingsEdit KEY_PRESSED_1 (onFaceIndex 9)) = 8
   \<and> position (onFaceIndex 0) = SET_POSITION_CLOCK_FACE
   \<and> clockFace (onFaceIndex 0) = 0
   \<and> clockFace (settingsEdit KEY_PRESSED_1 (onFaceIndex 0)) = 0
   \<and> unat (clockFace (onFaceIndex 0)) < 9
   \<and> clockFace (settingsEdit KEY_PRESSED_3 (onFaceIndex 0)) = 1"
proof -
  have p: "position (onFaceIndex f) = SET_POSITION_CLOCK_FACE" for f
    by (simp add: onFaceIndex_def)
  have f: "clockFace (onFaceIndex f) = f" for f
    by (simp add: onFaceIndex_def)
  show ?thesis
    using settings_face_index_saturates [OF p [of 9]]
      settings_face_index_saturates [OF p [of 0]]
    by (simp add: p f)
qed

section \<open>The time and date menu: the day field\<close>

lemma days_max_range: "getDaysMaxBasedOnMonthAndLeapYear c \<in> {28, 29, 30, 31}"
  by (simp add: getDaysMaxBasedOnMonthAndLeapYear_def)

lemma day_min_read: "arrayRead valueTimeDateMin (uint SET_POSITION_DAY - 1) = Inr 1"
  by (simp add: arrayRead_def valueTimeDateMin_def position_defs)

lemma inc_day_at_max:
  assumes "position c = SET_POSITION_DAY"
    and "dayOfMonth c = getDaysMaxBasedOnMonthAndLeapYear c"
  shows "timeDateEdit KEY_PRESSED_3 c = Inr (c\<lparr>dayOfMonth := 1, settingsChangedFlag := 1\<rparr>)"
proof -
  have g: "sint (getDaysMaxBasedOnMonthAndLeapYear c + 1)
             > sint (getDaysMaxBasedOnMonthAndLeapYear c)"
    using days_max_range [of c] by auto
  show ?thesis
    using assms g
    by (simp add: timeDateEdit_def timeDateInc_def key_defs day_min_read
        getValueByPosition_def setValueByPosition_def Let_def)
      (simp add: position_defs)
qed

lemma dec_day_at_one:
  assumes "position c = SET_POSITION_DAY" and "dayOfMonth c = 1"
  shows "timeDateEdit KEY_PRESSED_1 c =
           Inr (c\<lparr>dayOfMonth := getDaysMaxBasedOnMonthAndLeapYear c,
                   settingsChangedFlag := 1\<rparr>)"
  using assms
  by (simp add: timeDateEdit_def timeDateDec_def key_defs day_min_read
      getValueByPosition_def setValueByPosition_def Let_def)
    (simp add: position_defs)

text \<open>
  Claim C9. The maximum of the day field is computed from the current month and year on
  every edit: 29 for month 2 when the year is a multiple of 4, 28 for month 2 otherwise,
  30 for the months 4, 6, 9 and 11, and 31 for every other month. On the day field, Inc
  on the maximum yields 1 and Dec on 1 yields the maximum.
\<close>

theorem day_field_bounds:
  "getDaysMaxBasedOnMonthAndLeapYear c =
     (if months c = 2 then (if years c mod 4 = 0 then 29 else 28)
      else if months c = 4 \<or> months c = 6 \<or> months c = 9 \<or> months c = 11 then 30
      else 31)
   \<and> (position c = SET_POSITION_DAY \<and> dayOfMonth c = getDaysMaxBasedOnMonthAndLeapYear c
        \<longrightarrow> timeDateEdit KEY_PRESSED_3 c
              = Inr (c\<lparr>dayOfMonth := 1, settingsChangedFlag := 1\<rparr>))
   \<and> (position c = SET_POSITION_DAY \<and> dayOfMonth c = 1
        \<longrightarrow> timeDateEdit KEY_PRESSED_1 c
              = Inr (c\<lparr>dayOfMonth := getDaysMaxBasedOnMonthAndLeapYear c,
                      settingsChangedFlag := 1\<rparr>))"
proof (intro conjI impI)
  show "getDaysMaxBasedOnMonthAndLeapYear c =
     (if months c = 2 then (if years c mod 4 = 0 then 29 else 28)
      else if months c = 4 \<or> months c = 6 \<or> months c = 9 \<or> months c = 11 then 30
      else 31)"
    by (simp add: getDaysMaxBasedOnMonthAndLeapYear_def)
next
  assume "position c = SET_POSITION_DAY \<and> dayOfMonth c = getDaysMaxBasedOnMonthAndLeapYear c"
  then show "timeDateEdit KEY_PRESSED_3 c = Inr (c\<lparr>dayOfMonth := 1, settingsChangedFlag := 1\<rparr>)"
    by (simp add: inc_day_at_max)
next
  assume "position c = SET_POSITION_DAY \<and> dayOfMonth c = 1"
  then show "timeDateEdit KEY_PRESSED_1 c =
      Inr (c\<lparr>dayOfMonth := getDaysMaxBasedOnMonthAndLeapYear c, settingsChangedFlag := 1\<rparr>)"
    by (simp add: dec_day_at_one)
qed

theorem day_field_bounds_witness:
  "getDaysMaxBasedOnMonthAndLeapYear (onDay 24 2 29) = 29
   \<and> getDaysMaxBasedOnMonthAndLeapYear (onDay 23 2 28) = 28
   \<and> getDaysMaxBasedOnMonthAndLeapYear (onDay 24 4 1) = 30
   \<and> position (onDay 24 2 29) = SET_POSITION_DAY
   \<and> dayOfMonth (onDay 24 2 29) = getDaysMaxBasedOnMonthAndLeapYear (onDay 24 2 29)
   \<and> timeDateEdit KEY_PRESSED_3 (onDay 24 2 29)
       = Inr ((onDay 24 2 29)\<lparr>dayOfMonth := 1, settingsChangedFlag := 1\<rparr>)
   \<and> position (onDay 24 4 1) = SET_POSITION_DAY
   \<and> dayOfMonth (onDay 24 4 1) = 1
   \<and> timeDateEdit KEY_PRESSED_1 (onDay 24 4 1)
       = Inr ((onDay 24 4 1)\<lparr>dayOfMonth := 30, settingsChangedFlag := 1\<rparr>)"
proof -
  have a: "getDaysMaxBasedOnMonthAndLeapYear (onDay 24 2 29) = 29"
    and b: "getDaysMaxBasedOnMonthAndLeapYear (onDay 23 2 28) = 28"
    and d: "getDaysMaxBasedOnMonthAndLeapYear (onDay 24 4 1) = 30"
    by (simp_all add: getDaysMaxBasedOnMonthAndLeapYear_def onDay_def)
  have p: "position (onDay y m d) = SET_POSITION_DAY"
    and e: "dayOfMonth (onDay y m d) = d" for y m d
    by (simp_all add: onDay_def)
  show ?thesis
    using day_field_bounds [of "onDay 24 2 29"] day_field_bounds [of "onDay 24 4 1"]
    by (simp add: a b d p e)
qed

end
